theory Spec2Isabelle
  imports Main "HOL-Library.Sublist"
begin

section \<open>Python strings\<close>

text \<open>
  A Python \<^verbatim>\<open>str\<close> is a sequence of Unicode code points: \<^verbatim>\<open>len\<close> counts code points and
  a slice \<^verbatim>\<open>s[:100]\<close> keeps the first 100 of them. The model is a list of code points, each
  a natural number, so that \<open>length\<close> and \<open>take\<close> count what Python counts. String
  literals of the source are written as their code points; \<open>ascii\<close> embeds a literal that
  is pure ASCII.
\<close>

type_synonym pystr = "nat list"

definition ascii :: "string \<Rightarrow> pystr" where
  "ascii s = map of_char s"

text \<open>
  \<^verbatim>\<open>str.isspace\<close> on one code point: the code points Python treats as whitespace
  (bidirectional class WS, B or S, or general category Zs). \<^verbatim>\<open>str.strip()\<close> without an
  argument removes exactly these from both ends.
\<close>

definition py_isspace :: "nat \<Rightarrow> bool" where
  "py_isspace c =
     ((0x09 \<le> c \<and> c \<le> 0x0D) \<or> (0x1C \<le> c \<and> c \<le> 0x20) \<or> c = 0x85 \<or> c = 0xA0 \<or>
      c = 0x1680 \<or> (0x2000 \<le> c \<and> c \<le> 0x200A) \<or> c = 0x2028 \<or> c = 0x2029 \<or>
      c = 0x202F \<or> c = 0x205F \<or> c = 0x3000)"

definition strip :: "pystr \<Rightarrow> pystr" where
  "strip s = rev (dropWhile py_isspace (rev (dropWhile py_isspace s)))"

text \<open>\<^verbatim>\<open>str(i)\<close> for a non-negative integer: its decimal digits.\<close>

fun str_of_nat :: "nat \<Rightarrow> pystr" where
  "str_of_nat n = (if n < 10 then [0x30 + n] else str_of_nat (n div 10) @ [0x30 + n mod 10])"

declare str_of_nat.simps [simp del]

section \<open>Exceptions and the model collaborator\<close>

text \<open>
  What a call can raise. \<open>Exception msg\<close> is an instance of class \<^verbatim>\<open>Exception\<close> (or of a
  subclass) with \<^verbatim>\<open>str(e) = msg\<close>; \<open>BaseException msg\<close> is a raised object whose class is
  outside \<^verbatim>\<open>Exception\<close> (\<^verbatim>\<open>KeyboardInterrupt\<close>, \<^verbatim>\<open>SystemExit\<close>), which the handler
  \<^verbatim>\<open>except Exception as e\<close> of \<^verbatim>\<open>translate_text\<close> does not catch.
\<close>

datatype pyexc = Exception pystr | BaseException pystr

text \<open>
  The value \<^verbatim>\<open>self.model.invoke\<close> returns: a \<^verbatim>\<open>str\<close>, or another object, which is
  represented by the text \<^verbatim>\<open>str(response)\<close> gives for it.
\<close>

datatype response = StrResponse pystr | OtherResponse pystr

text \<open>\<^verbatim>\<open>response if isinstance(response, str) else str(response)\<close>\<close>

fun coerce_text :: "response \<Rightarrow> pystr" where
  "coerce_text (StrResponse s) = s"
| "coerce_text (OtherResponse s) = s"

text \<open>
  The collaborator is a parameter of the model: a function \<open>invoke\<close> that takes the
  collaborator's own state \<open>'m\<close> and the prompt, and gives what the call raises or returns
  together with the collaborator's next state. A call that is not made leaves that state
  as it was; a call made once advances it once.
\<close>

type_synonym 'm invoke = "'m \<Rightarrow> pystr \<Rightarrow> (pyexc + response) \<times> 'm"

section \<open>The prompt template\<close>

text \<open>
  The literal pieces of the f-string \<^verbatim>\<open>complex_template\<close>, in the order of the source,
  as code points. In English: \<open>tpl_head\<close> "(newline) You are a professional",
  \<open>tpl_1\<close> "translator, specialised in", \<open>tpl_2\<close> "domain, skilled at",
  \<open>tpl_3\<close> "style translation. (newline) Please translate the following",
  \<open>tpl_4\<close> "text into", \<open>tpl_5\<close> ", and make sure: (newline) 1. keep the tone and style
  of the original (", \<open>tpl_6\<close> ") (newline) 2. use", \<open>tpl_7\<close> "domain terminology
  (newline) 3. follow", \<open>tpl_8\<close> "language habits (newline) 4. keep the meaning of the
  original complete (newline) 5. give a natural, fluent translation (newline)(newline)",
  \<open>tpl_9\<close> "text:" and \<open>tpl_10\<close> "translation: (newline)".
\<close>

definition tpl_head :: pystr where
  "tpl_head = [0x0A, 0x4F60, 0x662F, 0x4E00, 0x4F4D, 0x5C08, 0x696D, 0x7684]"

definition tpl_1 :: pystr where
  "tpl_1 = [0x7FFB, 0x8B6F, 0x5BB6, 0xFF0C, 0x5C08, 0x7CBE, 0x65BC]"

definition tpl_2 :: pystr where
  "tpl_2 = [0x9818, 0x57DF, 0xFF0C, 0x64C5, 0x9577]"

definition tpl_3 :: pystr where
  "tpl_3 = [0x98A8, 0x683C, 0x7684, 0x7FFB, 0x8B6F, 0x3002, 0x0A, 0x8ACB, 0x5C07, 0x4EE5, 0x4E0B]"

definition tpl_4 :: pystr where
  "tpl_4 = [0x6587, 0x672C, 0x7FFB, 0x8B6F, 0x6210]"

definition tpl_5 :: pystr where
  "tpl_5 = [0xFF0C, 0x4E26, 0x78BA, 0x4FDD, 0xFF1A, 0x0A, 0x31, 0x2E, 0x20, 0x4FDD, 0x6301,
            0x539F, 0x6587, 0x7684, 0x8A9E, 0x6C23, 0x548C, 0x98A8, 0x683C, 0xFF08]"

definition tpl_6 :: pystr where
  "tpl_6 = [0xFF09, 0x0A, 0x32, 0x2E, 0x20, 0x4F7F, 0x7528]"

definition tpl_7 :: pystr where
  "tpl_7 = [0x9818, 0x57DF, 0x7684, 0x5C08, 0x696D, 0x8853, 0x8A9E, 0x0A, 0x33, 0x2E, 0x20,
            0x7B26, 0x5408]"

definition tpl_8 :: pystr where
  "tpl_8 = [0x7684, 0x8A9E, 0x8A00, 0x7FD2, 0x6163, 0x0A, 0x34, 0x2E, 0x20, 0x4FDD, 0x6301,
            0x539F, 0x6587, 0x7684, 0x8A9E, 0x7FA9, 0x5B8C, 0x6574, 0x6027, 0x0A, 0x35, 0x2E,
            0x20, 0x63D0, 0x4F9B, 0x81EA, 0x7136, 0x6D41, 0x66A2, 0x7684, 0x7FFB, 0x8B6F,
            0x7D50, 0x679C, 0x0A, 0x0A]"

definition tpl_9 :: pystr where
  "tpl_9 = [0x6587, 0x672C, 0xFF1A]"

definition tpl_10 :: pystr where
  "tpl_10 = [0x7FFB, 0x8B6F, 0xFF1A, 0x0A]"

text \<open>
  The f-string itself. Python substitutes the four selectors as they are and turns the
  doubled braces \<^verbatim>\<open>{{text}}\<close> into the single replacement field \<^verbatim>\<open>{text}\<close>, which is
  still unfilled in \<^verbatim>\<open>complex_template\<close>.
\<close>

definition complex_template :: "pystr \<Rightarrow> pystr \<Rightarrow> pystr \<Rightarrow> pystr \<Rightarrow> pystr" where
  "complex_template source_language target_language domain tone_style =
     tpl_head @ target_language @ tpl_1 @ domain @ tpl_2 @ tone_style @
     tpl_3 @ source_language @ tpl_4 @ target_language @
     tpl_5 @ tone_style @
     tpl_6 @ domain @
     tpl_7 @ target_language @
     tpl_8 @
     source_language @ tpl_9 @ ascii ''{text}'' @ [0x0A] @
     target_language @ tpl_10"

text \<open>
  \<^verbatim>\<open>ChatPromptTemplate.from_template(t).format(text=v)\<close> belongs to the prompt library,
  not to this repository. \<open>fstring_format\<close> follows Python's format-string scanner, which
  the library's default template format uses, on the part of the format language this
  program relies on: an ordinary character is copied, the doubled braces \<^verbatim>\<open>{{\<close> and
  \<^verbatim>\<open>}}\<close> give one brace, and the plain field \<^verbatim>\<open>{text}\<close> is replaced by the value. At any
  other use of a brace (a stray brace, another field name, a conversion or a format
  specification) the model stops and hands the template from that brace on to \<open>other\<close>,
  a parameter that stands for whatever the library does there, raising or rendering.
  The theorems below hold for every \<open>other\<close>.
\<close>

fun emit :: "pystr \<Rightarrow> pyexc + pystr \<Rightarrow> pyexc + pystr" where
  "emit s (Inl e) = Inl e"
| "emit s (Inr r) = Inr (s @ r)"

type_synonym formatter = "pystr \<Rightarrow> pystr \<Rightarrow> pyexc + pystr"

fun fstring_format :: "formatter \<Rightarrow> pystr \<Rightarrow> pystr \<Rightarrow> pyexc + pystr" where
  "fstring_format other [] text = Inr []"
| "fstring_format other (c # cs) text =
     (if c = 0x7D then
        (if take 1 cs = [0x7D] then emit [0x7D] (fstring_format other (drop 1 cs) text)
         else other (c # cs) text)
      else if c = 0x7B then
        (if take 1 cs = [0x7B] then emit [0x7B] (fstring_format other (drop 1 cs) text)
         else if take 5 cs = ascii ''text}'' then emit text (fstring_format other (drop 5 cs) text)
         else other (c # cs) text)
      else emit [c] (fstring_format other cs text))"

text \<open>
  A chat template made from one template string holds one human message, and the chat
  prompt as a string is that message behind its role: \<^verbatim>\<open>Human: \<close> and the rendered text.
\<close>

definition chat_prompt_format :: "formatter \<Rightarrow> pystr \<Rightarrow> pystr \<Rightarrow> pyexc + pystr" where
  "chat_prompt_format other template text =
     emit (ascii ''Human: '') (fstring_format other template text)"

section \<open>The agent\<close>

text \<open>
  The dictionaries of the source are records with the source's keys: the history entry
  (keys \<^verbatim>\<open>source_text\<close> ... \<^verbatim>\<open>prompt\<close>, here with the prefix \<open>rec_\<close>) and the result of
  \<^verbatim>\<open>translate_text\<close> (keys \<^verbatim>\<open>translation\<close>, \<^verbatim>\<open>prompt\<close>, \<^verbatim>\<open>status\<close>, here with the
  prefix \<open>res_\<close>).
\<close>

record translation_record =
  rec_source_text :: pystr
  rec_source_language :: pystr
  rec_target_language :: pystr
  rec_domain :: pystr
  rec_tone_style :: pystr
  rec_translation :: pystr
  rec_prompt :: pystr

record translate_result =
  res_translation :: pystr
  res_prompt :: pystr
  res_status :: pystr

text \<open>
  The attributes of a \<^verbatim>\<open>TranslationAgent\<close>. \<open>model\<close> is the state of the collaborator
  behind \<^verbatim>\<open>self.model\<close>; \<open>languages\<close> is the dictionary of the source in the order it is
  written, \<open>domains\<close> and \<open>tone_styles\<close> are its two lists.
\<close>

record 'm agent =
  model :: 'm
  translation_history :: "translation_record list"
  languages :: "(pystr \<times> pystr) list"
  domains :: "pystr list"
  tone_styles :: "pystr list"

text \<open>\<^verbatim>\<open>__init__\<close>, with the collaborator it creates given as \<open>m\<close>.\<close>

definition init :: "'m \<Rightarrow> 'm agent" where
  "init m =
   \<lparr>model = m,
    translation_history = [],
    languages =
    [([0x7E41, 0x9AD4, 0x4E2D, 0x6587], [0x7E41, 0x9AD4, 0x4E2D, 0x6587]),
     ([0x7B80, 0x4F53, 0x4E2D, 0x6587], [0x7B80, 0x4F53, 0x4E2D, 0x6587]),
     (ascii ''English'', [0x82F1, 0x6587]),
     ([0x65E5, 0x672C, 0x8A9E], [0x65E5, 0x6587]),
     ([0xD55C, 0xAD6D, 0xC5B4], [0x97D3, 0x6587]),
     ([0x46, 0x72, 0x61, 0x6E, 0xE7, 0x61, 0x69, 0x73], [0x6CD5, 0x6587]),
     (ascii ''Deutsch'', [0x5FB7, 0x6587]),
     ([0x45, 0x73, 0x70, 0x61, 0xF1, 0x6F, 0x6C], [0x897F, 0x73ED, 0x7259, 0x6587]),
     (ascii ''Italiano'', [0x7FA9, 0x5927, 0x5229, 0x6587]),
     ([0x50, 0x6F, 0x72, 0x74, 0x75, 0x67, 0x75, 0xEA, 0x73], [0x8461, 0x8404, 0x7259, 0x6587])],
    domains =
    [[0x4E00, 0x822C], [0x5546, 0x696D], [0x79D1, 0x6280], [0x91AB, 0x5B78], [0x6CD5, 0x5F8B],
     [0x5B78, 0x8853], [0x6587, 0x5B78], [0x65B0, 0x805E], [0x884C, 0x92B7], [0x6559, 0x80B2],
     [0x5DE5, 0x7A0B], [0x91D1, 0x878D], [0x65C5, 0x904A], [0x85DD, 0x8853]],
    tone_styles =
    [[0x6B63, 0x5F0F], [0x53CB, 0x5584], [0x5C08, 0x696D], [0x8F15, 0x9B06], [0x5B78, 0x8853],
     [0x5546, 0x52D9], [0x5275, 0x610F], [0x7C21, 0x6F54]]\<rparr>"

subsection \<open>\<^verbatim>\<open>translate_text\<close>\<close>

text \<open>
  The messages of the source: \<open>msg_empty_input\<close> "please enter the text to translate",
  \<open>msg_error_prefix\<close> "an error occurred during translation: ".
\<close>

definition msg_empty_input :: pystr where
  "msg_empty_input = [0x8ACB, 0x8F38, 0x5165, 0x8981, 0x7FFB, 0x8B6F, 0x7684, 0x6587, 0x672C]"

definition msg_error_prefix :: pystr where
  "msg_error_prefix =
     [0x7FFB, 0x8B6F, 0x904E, 0x7A0B, 0x4E2D, 0x767C, 0x751F, 0x932F, 0x8AA4, 0x3A, 0x20]"

text \<open>
  The handler \<^verbatim>\<open>except Exception as e\<close>: an instance of \<^verbatim>\<open>Exception\<close> becomes the error
  result; anything else goes on to the caller. \<open>self\<close> is the agent at the moment of the
  raise.
\<close>

fun except_Exception :: "pyexc \<Rightarrow> 'm agent \<Rightarrow> (pyexc + translate_result) \<times> 'm agent" where
  "except_Exception (Exception msg) self =
     (Inr \<lparr>res_translation = msg_error_prefix @ msg, res_prompt = [],
           res_status = ascii ''error''\<rparr>, self)"
| "except_Exception (BaseException msg) self = (Inl (BaseException msg), self)"

text \<open>
  \<^verbatim>\<open>translate_text\<close>. \<open>format\<close> is the library call that renders the template and
  \<open>invoke\<close> the collaborator. The result is what the call raises to its caller (\<open>Inl\<close>) or
  the dictionary it returns (\<open>Inr\<close>), with the agent after the call.
\<close>

definition translate_text ::
  "formatter \<Rightarrow> 'm invoke \<Rightarrow> 'm agent \<Rightarrow> pystr \<Rightarrow> pystr \<Rightarrow> pystr \<Rightarrow> pystr \<Rightarrow> pystr \<Rightarrow>
   (pyexc + translate_result) \<times> 'm agent" where
  "translate_text format invoke self source_text source_language target_language domain tone_style =
     (if strip source_text = [] then
        (Inr \<lparr>res_translation = msg_empty_input, res_prompt = [],
              res_status = ascii ''error''\<rparr>, self)
      else
        (case format (complex_template source_language target_language domain tone_style)
                source_text of
           Inl e \<Rightarrow> except_Exception e self
         | Inr formatted_prompt \<Rightarrow>
             (case invoke (model self) formatted_prompt of
                (Inl e, m) \<Rightarrow> except_Exception e (self\<lparr>model := m\<rparr>)
              | (Inr response, m) \<Rightarrow>
                  (let translation_result = coerce_text response;
                       translation_record =
                         \<lparr>rec_source_text = source_text,
                          rec_source_language = source_language,
                          rec_target_language = target_language,
                          rec_domain = domain,
                          rec_tone_style = tone_style,
                          rec_translation = translation_result,
                          rec_prompt = formatted_prompt\<rparr>
                   in (Inr \<lparr>res_translation = translation_result,
                             res_prompt = formatted_prompt,
                             res_status = ascii ''success''\<rparr>,
                       self\<lparr>model := m,
                            translation_history :=
                              translation_history self @ [translation_record]\<rparr>)))))"

subsection \<open>\<^verbatim>\<open>get_translation_history\<close> and \<^verbatim>\<open>clear_history\<close>\<close>

text \<open>
  The literals of the history view: \<open>msg_no_records\<close> "no translation records yet",
  \<open>history_header\<close> "# (books) translation history (newline)(newline)", \<open>arrow\<close> a
  rightwards arrow between two spaces, the bold labels \<open>label_domain\<close> "domain",
  \<open>label_style\<close> "style" (behind a vertical bar), \<open>label_source\<close> "original" and
  \<open>label_translation\<close> "translation", and \<open>msg_cleared\<close> "(check mark) translation
  history cleared".
\<close>

definition msg_no_records :: pystr where
  "msg_no_records = [0x5C1A, 0x7121, 0x7FFB, 0x8B6F, 0x8A18, 0x9304]"

definition history_header :: pystr where
  "history_header =
     [0x23, 0x20, 0x1F4DA, 0x20, 0x7FFB, 0x8B6F, 0x6B77, 0x53F2, 0x8A18, 0x9304, 0x0A, 0x0A]"

definition arrow :: pystr where
  "arrow = [0x20, 0x2192, 0x20]"

definition label_domain :: pystr where
  "label_domain = [0x2A, 0x2A, 0x9818, 0x57DF, 0x2A, 0x2A, 0x3A, 0x20]"

definition label_style :: pystr where
  "label_style = [0x20, 0x7C, 0x20, 0x2A, 0x2A, 0x98A8, 0x683C, 0x2A, 0x2A, 0x3A, 0x20]"

definition label_source :: pystr where
  "label_source = [0x2A, 0x2A, 0x539F, 0x6587, 0x2A, 0x2A, 0x3A, 0x20]"

definition label_translation :: pystr where
  "label_translation = [0x2A, 0x2A, 0x8B6F, 0x6587, 0x2A, 0x2A, 0x3A, 0x20]"

definition msg_cleared :: pystr where
  "msg_cleared = [0x2705, 0x20, 0x7FFB, 0x8B6F, 0x6B77, 0x53F2, 0x5DF2, 0x6E05, 0x9664]"

text \<open>
  The four lines one pass of the loop adds to \<^verbatim>\<open>history_text\<close> for the entry \<open>r\<close> with the
  number \<open>i\<close>.
\<close>

definition history_lines :: "nat \<Rightarrow> translation_record \<Rightarrow> pystr" where
  "history_lines i r =
     (ascii ''## '' @ str_of_nat i @ ascii ''. '' @ rec_source_language r @ arrow @
        rec_target_language r @ [0x0A]) @
     (label_domain @ rec_domain r @ label_style @ rec_tone_style r @ [0x0A]) @
     (label_source @ take 100 (rec_source_text r) @
        (if length (rec_source_text r) > 100 then ascii ''...'' else []) @ [0x0A]) @
     (label_translation @ take 150 (rec_translation r) @
        (if length (rec_translation r) > 150 then ascii ''...'' else []) @ [0x0A, 0x0A])"

text \<open>
  The loop \<^verbatim>\<open>for i, record in enumerate(..., 1)\<close>, with the text built so far and the
  next number as its state.
\<close>

fun history_loop :: "pystr \<Rightarrow> nat \<Rightarrow> translation_record list \<Rightarrow> pystr" where
  "history_loop history_text i [] = history_text"
| "history_loop history_text i (r # rs) =
     history_loop (history_text @ history_lines i r) (i + 1) rs"

text \<open>The slice \<^verbatim>\<open>xs[-10:]\<close>: the whole list when it has fewer than ten elements.\<close>

definition last_ten :: "'a list \<Rightarrow> 'a list" where
  "last_ten xs = drop (length xs - 10) xs"

definition get_translation_history :: "'m agent \<Rightarrow> pystr \<times> 'm agent" where
  "get_translation_history self =
     (if translation_history self = [] then (msg_no_records, self)
      else (history_loop history_header 1 (last_ten (translation_history self)), self))"

definition clear_history :: "'m agent \<Rightarrow> pystr \<times> 'm agent" where
  "clear_history self = (msg_cleared, self\<lparr>translation_history := []\<rparr>)"

subsection \<open>Sequences of calls\<close>

text \<open>
  The three calls the interface wires to its buttons, as operations on the one agent
  of the module, and a run of them from left to right.
\<close>

datatype operation =
  Submit pystr pystr pystr pystr pystr
| GetHistory
| ClearHistory

fun step :: "formatter \<Rightarrow> 'm invoke \<Rightarrow> 'm agent \<Rightarrow> operation \<Rightarrow> 'm agent" where
  "step format invoke self (Submit source_text source_language target_language domain tone_style) =
     snd (translate_text format invoke self source_text source_language target_language
            domain tone_style)"
| "step format invoke self GetHistory = snd (get_translation_history self)"
| "step format invoke self ClearHistory = snd (clear_history self)"

definition run :: "formatter \<Rightarrow> 'm invoke \<Rightarrow> 'm agent \<Rightarrow> operation list \<Rightarrow> 'm agent" where
  "run format invoke self ops = foldl (step format invoke) self ops"

section \<open>What the specification says, in its own words\<close>

text \<open>
  The instruction the specification describes: the fixed template with the four
  selectors substituted and the text \<open>body\<close> in the slot of the field \<^verbatim>\<open>{text}\<close>.
\<close>

definition rendered_instruction :: "pystr \<Rightarrow> pystr \<Rightarrow> pystr \<Rightarrow> pystr \<Rightarrow> pystr \<Rightarrow> pystr" where
  "rendered_instruction source_language target_language domain tone_style body =
     tpl_head @ target_language @ tpl_1 @ domain @ tpl_2 @ tone_style @
     tpl_3 @ source_language @ tpl_4 @ target_language @
     tpl_5 @ tone_style @
     tpl_6 @ domain @
     tpl_7 @ target_language @
     tpl_8 @
     source_language @ tpl_9 @ body @ [0x0A] @
     target_language @ tpl_10"

text \<open>A string that holds no brace, as every label of the three catalogs is.\<close>

definition brace_free :: "pystr \<Rightarrow> bool" where
  "brace_free s = list_all (\<lambda>c. c \<noteq> 0x7B \<and> c \<noteq> 0x7D) s"

text \<open>
  A text cut to \<open>k\<close> characters for display: itself when it has at most \<open>k\<close>, and
  otherwise its first \<open>k\<close> characters with an ellipsis behind them.
\<close>

definition truncated :: "nat \<Rightarrow> pystr \<Rightarrow> pystr" where
  "truncated k s = (if length s \<le> k then s else take k s @ ascii ''...'')"

text \<open>
  One entry of the view, from the number it is shown under and the record: the two
  languages, the domain and the tone as they are, the source text cut to 100 and the
  output text cut to 150 characters.
\<close>

definition view_entry :: "nat \<Rightarrow> translation_record \<Rightarrow> pystr" where
  "view_entry i r =
     ascii ''## '' @ str_of_nat i @ ascii ''. '' @ rec_source_language r @ arrow @
       rec_target_language r @ [0x0A] @
     label_domain @ rec_domain r @ label_style @ rec_tone_style r @ [0x0A] @
     label_source @ truncated 100 (rec_source_text r) @ [0x0A] @
     label_translation @ truncated 150 (rec_translation r) @ [0x0A, 0x0A]"

text \<open>
  The label a catalog maps a display label to: the value stored under the key in the
  dictionary \<open>languages\<close>.
\<close>

definition catalog_label :: "(pystr \<times> pystr) list \<Rightarrow> pystr \<Rightarrow> pystr option" where
  "catalog_label catalog display_label = map_of catalog display_label"

section \<open>Stand-ins for the collaborators\<close>

text \<open>
  Deterministic collaborators for concrete runs. Each keeps the number of calls made to
  it as its state. \<open>echo\<close> returns the prompt it was given, \<open>answering\<close> returns an
  object that is not a \<^verbatim>\<open>str\<close> and whose text is \<^verbatim>\<open>Hallo Welt\<close>, \<open>refusing\<close> raises an
  exception of class \<^verbatim>\<open>Exception\<close>, \<open>interrupted\<close> raises one outside that class.
  \<open>raising\<close> is a renderer that raises on every template, and \<open>no_other\<close> is the
  behaviour assumed of the library outside the modelled part of the format language in
  concrete runs (none of which leaves that part).
\<close>

definition echo :: "nat invoke" where
  "echo n p = (Inr (StrResponse p), Suc n)"

definition answering :: "nat invoke" where
  "answering n p = (Inr (OtherResponse (ascii ''Hallo Welt'')), Suc n)"

definition refusing :: "nat invoke" where
  "refusing n p = (Inl (Exception (ascii ''connection refused'')), Suc n)"

definition interrupted :: "nat invoke" where
  "interrupted n p = (Inl (BaseException (ascii ''KeyboardInterrupt'')), Suc n)"

definition raising :: formatter where
  "raising template text = Inl (Exception (ascii ''bad template''))"

definition no_other :: formatter where
  "no_other rest text = Inl (Exception (ascii ''unsupported replacement field''))"

text \<open>The inputs of the example: the text and the four labels.\<close>

definition hello_world :: pystr where
  "hello_world = ascii ''Hello world''"

definition english :: pystr where
  "english = ascii ''English''"

definition traditional_chinese :: pystr where
  "traditional_chinese = [0x7E41, 0x9AD4, 0x4E2D, 0x6587]"

definition general :: pystr where
  "general = [0x4E00, 0x822C]"

definition professional :: pystr where
  "professional = [0x5C08, 0x696D]"

text \<open>
  The instruction of the example: the role prefix and the template filled with the
  example's labels and text.
\<close>

definition hello_world_prompt :: pystr where
  "hello_world_prompt =
     ascii ''Human: '' @
     rendered_instruction english traditional_chinese general professional hello_world"

text \<open>The example's text between two spaces, and the label the catalog stores for English.\<close>

definition padded_hello_world :: pystr where
  "padded_hello_world = ascii '' Hello world ''"

definition english_in_chinese :: pystr where
  "english_in_chinese = [0x82F1, 0x6587]"

text \<open>
  History entries for concrete runs: entry \<open>n\<close> has a source text of \<open>90 + n\<close> and an
  output text of \<open>140 + n\<close> characters.
\<close>

definition sample_record :: "nat \<Rightarrow> translation_record" where
  "sample_record n =
     \<lparr>rec_source_text = replicate (90 + n) 0x61,
      rec_source_language = english,
      rec_target_language = traditional_chinese,
      rec_domain = general,
      rec_tone_style = professional,
      rec_translation = replicate (140 + n) 0x62,
      rec_prompt = hello_world_prompt\<rparr>"

section \<open>Empty input\<close>

lemma strip_Nil_iff: "strip s = [] \<longleftrightarrow> (\<forall>c\<in>set s. py_isspace c)"
proof
  assume "strip s = []"
  then have all: "\<forall>c\<in>set (dropWhile py_isspace s). py_isspace c"
    by (simp add: strip_def)
  show "\<forall>c\<in>set s. py_isspace c"
  proof (cases "dropWhile py_isspace s")
    case Nil
    then show ?thesis by simp
  next
    case (Cons x xs)
    then have "\<not> py_isspace x" by (metis hd_dropWhile list.sel(1) list.distinct(1))
    moreover have "py_isspace x" using all Cons by simp
    ultimately show ?thesis by simp
  qed
next
  assume "\<forall>c\<in>set s. py_isspace c"
  then show "strip s = []" by (auto simp: strip_def dest: set_dropWhileD)
qed

text \<open>
  C2. When the text is empty after trimming (that is, empty or made of whitespace only),
  whatever the four selectors are, \<open>translate_text\<close> returns the placeholder message with
  status \<open>error\<close> and an empty prompt, and the agent after the call is the agent before
  it: the history has no new record and the collaborator's state has not moved, for every
  collaborator and every renderer, so neither was called.
\<close>

theorem translate_text_empty_input:
  assumes "strip source_text = []"
  shows "translate_text format invoke self source_text source_language target_language
           domain tone_style =
         (Inr \<lparr>res_translation = msg_empty_input, res_prompt = [],
               res_status = ascii ''error''\<rparr>, self)"
  using assms by (simp add: translate_text_def)

theorem translate_text_empty_input_witness:
  "strip [0x20, 0x3000, 0x09] = [] \<and>
   translate_text raising refusing (init 0) [0x20, 0x3000, 0x09] english traditional_chinese
     general professional =
   (Inr \<lparr>res_translation = msg_empty_input, res_prompt = [], res_status = ascii ''error''\<rparr>,
    init 0)"
  using translate_text_empty_input [of "[0x20, 0x3000, 0x09]" raising refusing "init 0"
      english traditional_chinese general professional]
  by (simp add: strip_def py_isspace_def)

section \<open>Rendering the template\<close>

lemma emit_emit: "emit s (emit t x) = emit (s @ t) x"
  by (cases x) simp_all

lemma emit_Nil: "emit [] x = x"
  by (cases x) simp_all

lemma fstring_format_literal:
  "brace_free s \<Longrightarrow> fstring_format other (s @ rest) text = emit s (fstring_format other rest text)"
proof (induction s)
  case Nil
  then show ?case by (simp add: emit_Nil)
next
  case (Cons c s)
  then show ?case by (simp add: brace_free_def emit_emit)
qed

lemma fstring_format_last: "brace_free s \<Longrightarrow> fstring_format other s text = Inr s"
  using fstring_format_literal [of s other "[]" "text"] by simp

lemma fstring_format_newline:
  "fstring_format other (0x0A # rest) text = emit [0x0A] (fstring_format other rest text)"
  by simp

lemma fstring_format_field:
  "fstring_format other (ascii ''{text}'' @ rest) text = emit text (fstring_format other rest text)"
  by (simp add: ascii_def)

lemma brace_free_tpl:
  "brace_free tpl_head" "brace_free tpl_1" "brace_free tpl_2" "brace_free tpl_3"
  "brace_free tpl_4" "brace_free tpl_5" "brace_free tpl_6" "brace_free tpl_7"
  "brace_free tpl_8" "brace_free tpl_9" "brace_free tpl_10"
  by (simp_all add: brace_free_def tpl_head_def tpl_1_def tpl_2_def tpl_3_def tpl_4_def
      tpl_5_def tpl_6_def tpl_7_def tpl_8_def tpl_9_def tpl_10_def)

text \<open>
  With selectors that hold no brace, the only replacement field of the template is
  \<^verbatim>\<open>{text}\<close>: rendering returns, and gives the template with the value in that slot.
\<close>

lemma fstring_format_complex_template:
  assumes "brace_free source_language" "brace_free target_language" "brace_free domain"
    "brace_free tone_style"
  shows "fstring_format other (complex_template source_language target_language domain tone_style)
           text =
         Inr (rendered_instruction source_language target_language domain tone_style text)"
  using assms
  by (simp add: complex_template_def rendered_instruction_def fstring_format_literal
      fstring_format_field fstring_format_last fstring_format_newline brace_free_tpl
      del: fstring_format.simps)

lemma chat_prompt_format_complex_template:
  assumes "brace_free source_language" "brace_free target_language" "brace_free domain"
    "brace_free tone_style"
  shows "chat_prompt_format other
           (complex_template source_language target_language domain tone_style) text =
         Inr (ascii ''Human: '' @
              rendered_instruction source_language target_language domain tone_style text)"
  using assms by (simp add: chat_prompt_format_def fstring_format_complex_template)

text \<open>Every label of the three catalogs holds no brace.\<close>

lemma catalog_labels_brace_free:
  "\<forall>l \<in> fst ` set (languages (init m)) \<union> set (domains (init m)) \<union> set (tone_styles (init m)).
     brace_free l"
  by (simp add: init_def brace_free_def ascii_def)

text \<open>
  A selector with a brace changes the template itself. With the domain \<^verbatim>\<open>{text}\<close> the
  f-string has that field in the two places of the domain, and rendering puts the source
  text there.
\<close>

lemma field_in_selector:
  assumes "brace_free source_language" "brace_free target_language" "brace_free tone_style"
  shows "fstring_format other
           (complex_template source_language target_language (ascii ''{text}'') tone_style)
           text =
         Inr (rendered_instruction source_language target_language text tone_style text)"
  using assms
  by (simp add: complex_template_def rendered_instruction_def fstring_format_literal
      fstring_format_field fstring_format_last fstring_format_newline brace_free_tpl
      del: fstring_format.simps)

section \<open>The example\<close>

lemma strip_hello_world: "strip hello_world \<noteq> []"
  by (simp add: strip_def hello_world_def ascii_def py_isspace_def)

lemma brace_free_example:
  "brace_free english" "brace_free traditional_chinese" "brace_free general"
  "brace_free professional"
  by (simp_all add: brace_free_def english_def traditional_chinese_def general_def
      professional_def ascii_def)

lemma hello_world_run:
  "translate_text (chat_prompt_format other) echo (init n) hello_world english
     traditional_chinese general professional =
   (Inr \<lparr>res_translation = hello_world_prompt, res_prompt = hello_world_prompt,
         res_status = ascii ''success''\<rparr>,
    (init n)\<lparr>model := Suc n,
             translation_history :=
               [\<lparr>rec_source_text = hello_world,
                 rec_source_language = english,
                 rec_target_language = traditional_chinese,
                 rec_domain = general,
                 rec_tone_style = professional,
                 rec_translation = hello_world_prompt,
                 rec_prompt = hello_world_prompt\<rparr>]\<rparr>)"
proof -
  have "chat_prompt_format other
     (complex_template english traditional_chinese general professional) hello_world =
     Inr hello_world_prompt"
    unfolding hello_world_prompt_def
    by (rule chat_prompt_format_complex_template) (rule brace_free_example)+
  moreover have "translation_history (init n) = []" "model (init n) = n"
    by (simp_all add: init_def)
  ultimately show ?thesis
    using strip_hello_world by (simp add: translate_text_def echo_def)
qed

section \<open>A submission the collaborator answers\<close>

text \<open>
  C1. When the text is not empty after trimming, the template renders to
  \<open>formatted_prompt\<close> and the collaborator, invoked on it, returns \<open>response\<close>, a
  \<^verbatim>\<open>str\<close> \<open>s\<close> or another object whose text is \<open>s\<close>, then \<open>translate_text\<close> returns
  that text \<open>s\<close> as translation, the rendered instruction as prompt and the status
  \<open>success\<close>; the history afterwards is the history before with exactly one record
  behind it, whose five descriptive fields are the five arguments of the call and which
  holds the rendered instruction and the text \<open>s\<close> of the response; so the history is
  longer by one.
\<close>

theorem translate_text_success:
  assumes "strip source_text \<noteq> []"
    and "format (complex_template source_language target_language domain tone_style)
           source_text = Inr formatted_prompt"
    and "invoke (model self) formatted_prompt = (Inr response, m)"
    and "response = StrResponse s \<or> response = OtherResponse s"
  shows "translate_text format invoke self source_text source_language target_language
           domain tone_style =
         (Inr \<lparr>res_translation = s, res_prompt = formatted_prompt,
               res_status = ascii ''success''\<rparr>,
          self\<lparr>model := m,
               translation_history := translation_history self @
                 [\<lparr>rec_source_text = source_text,
                   rec_source_language = source_language,
                   rec_target_language = target_language,
                   rec_domain = domain,
                   rec_tone_style = tone_style,
                   rec_translation = s,
                   rec_prompt = formatted_prompt\<rparr>]\<rparr>) \<and>
         length (translation_history
                   (snd (translate_text format invoke self source_text source_language
                           target_language domain tone_style))) =
         length (translation_history self) + 1"
  using assms by (auto simp: translate_text_def Let_def)

theorem translate_text_success_witness:
  "strip hello_world \<noteq> [] \<and>
   chat_prompt_format no_other
     (complex_template english traditional_chinese general professional) hello_world =
   Inr hello_world_prompt \<and>
   echo (model (init 0)) hello_world_prompt = (Inr (StrResponse hello_world_prompt), 1) \<and>
   translate_text (chat_prompt_format no_other) echo (init 0) hello_world english
     traditional_chinese general professional =
   (Inr \<lparr>res_translation = hello_world_prompt, res_prompt = hello_world_prompt,
         res_status = ascii ''success''\<rparr>,
    (init 0)\<lparr>model := 1,
             translation_history := translation_history (init (0::nat)) @
               [\<lparr>rec_source_text = hello_world,
                 rec_source_language = english,
                 rec_target_language = traditional_chinese,
                 rec_domain = general,
                 rec_tone_style = professional,
                 rec_translation = hello_world_prompt,
                 rec_prompt = hello_world_prompt\<rparr>]\<rparr>) \<and>
   answering (model (init 0)) hello_world_prompt =
     (Inr (OtherResponse (ascii ''Hallo Welt'')), 1) \<and>
   translate_text (chat_prompt_format no_other) answering (init 0) hello_world english
     traditional_chinese general professional =
   (Inr \<lparr>res_translation = ascii ''Hallo Welt'', res_prompt = hello_world_prompt,
         res_status = ascii ''success''\<rparr>,
    (init 0)\<lparr>model := 1,
             translation_history := translation_history (init (0::nat)) @
               [\<lparr>rec_source_text = hello_world,
                 rec_source_language = english,
                 rec_target_language = traditional_chinese,
                 rec_domain = general,
                 rec_tone_style = professional,
                 rec_translation = ascii ''Hallo Welt'',
                 rec_prompt = hello_world_prompt\<rparr>]\<rparr>) \<and>
   length (translation_history
             (snd (translate_text (chat_prompt_format no_other) answering (init 0) hello_world
                     english traditional_chinese general professional))) =
   length (translation_history (init (0::nat))) + 1"
proof -
  have h1: "strip hello_world \<noteq> []" by (rule strip_hello_world)
  have h2: "chat_prompt_format no_other
     (complex_template english traditional_chinese general professional) hello_world =
     Inr hello_world_prompt"
    unfolding hello_world_prompt_def
    by (rule chat_prompt_format_complex_template) (rule brace_free_example)+
  have h3: "echo (model (init 0)) hello_world_prompt = (Inr (StrResponse hello_world_prompt), 1)"
    by (simp add: echo_def init_def)
  have h4: "answering (model (init 0)) hello_world_prompt =
      (Inr (OtherResponse (ascii ''Hallo Welt'')), 1)"
    by (simp add: answering_def init_def)
  have s1: "StrResponse hello_world_prompt = StrResponse hello_world_prompt \<or>
      StrResponse hello_world_prompt = OtherResponse hello_world_prompt"
    by simp
  have s2: "OtherResponse (ascii ''Hallo Welt'') = StrResponse (ascii ''Hallo Welt'') \<or>
      OtherResponse (ascii ''Hallo Welt'') = OtherResponse (ascii ''Hallo Welt'')"
    by simp
  note a = translate_text_success [where format = "chat_prompt_format no_other"
      and invoke = echo and self = "init 0", OF h1 h2 h3 s1]
  note b = translate_text_success [where format = "chat_prompt_format no_other"
      and invoke = answering and self = "init 0", OF h1 h2 h4 s2]
  from h1 h2 h3 h4 a b show ?thesis by blast
qed

section \<open>A submission that fails\<close>

text \<open>
  C3. When the text is not empty after trimming and rendering the template raises an
  exception (an instance of \<^verbatim>\<open>Exception\<close>) with the description \<open>msg\<close>, or rendering
  returns and the collaborator raises one, \<open>translate_text\<close> returns to its caller (it
  raises nothing) a result with the status \<open>error\<close>, an empty prompt and a translation
  that is the error prefix followed by \<open>msg\<close>, so \<open>msg\<close> is part of it. The history is
  unchanged. In the first case the agent is unchanged altogether, so the collaborator was
  not called; in the second the collaborator's state is the one its single call left, so
  it was called once and not again.
\<close>

theorem translate_text_failure:
  assumes "strip source_text \<noteq> []"
  shows "(format (complex_template source_language target_language domain tone_style)
            source_text = Inl (Exception msg) \<longrightarrow>
          translate_text format invoke self source_text source_language target_language
            domain tone_style =
          (Inr \<lparr>res_translation = msg_error_prefix @ msg, res_prompt = [],
                res_status = ascii ''error''\<rparr>, self)) \<and>
         (format (complex_template source_language target_language domain tone_style)
            source_text = Inr formatted_prompt \<and>
          invoke (model self) formatted_prompt = (Inl (Exception msg), m) \<longrightarrow>
          translate_text format invoke self source_text source_language target_language
            domain tone_style =
          (Inr \<lparr>res_translation = msg_error_prefix @ msg, res_prompt = [],
                res_status = ascii ''error''\<rparr>, self\<lparr>model := m\<rparr>) \<and>
          translation_history (self\<lparr>model := m\<rparr>) = translation_history self) \<and>
         sublist msg (msg_error_prefix @ msg)"
  using assms by (simp add: translate_text_def)

theorem translate_text_failure_witness:
  "strip hello_world \<noteq> [] \<and>
   raising (complex_template english traditional_chinese general professional) hello_world =
     Inl (Exception (ascii ''bad template'')) \<and>
   translate_text raising echo (init 0) hello_world english traditional_chinese general
     professional =
   (Inr \<lparr>res_translation = msg_error_prefix @ ascii ''bad template'', res_prompt = [],
         res_status = ascii ''error''\<rparr>, init 0) \<and>
   chat_prompt_format no_other
     (complex_template english traditional_chinese general professional) hello_world =
   Inr (ascii ''Human: '' @
        rendered_instruction english traditional_chinese general professional hello_world) \<and>
   refusing (model (init 0))
     (ascii ''Human: '' @
      rendered_instruction english traditional_chinese general professional hello_world) =
   (Inl (Exception (ascii ''connection refused'')), 1) \<and>
   translate_text (chat_prompt_format no_other) refusing (init 0) hello_world english
     traditional_chinese general professional =
   (Inr \<lparr>res_translation = msg_error_prefix @ ascii ''connection refused'', res_prompt = [],
         res_status = ascii ''error''\<rparr>, (init 0)\<lparr>model := 1\<rparr>)"
proof -
  let ?p = "ascii ''Human: '' @
    rendered_instruction english traditional_chinese general professional hello_world"
  have h1: "strip hello_world \<noteq> []" by (rule strip_hello_world)
  have h2: "raising (complex_template english traditional_chinese general professional)
      hello_world = Inl (Exception (ascii ''bad template''))"
    by (simp add: raising_def)
  have h3: "chat_prompt_format no_other
     (complex_template english traditional_chinese general professional) hello_world = Inr ?p"
    by (rule chat_prompt_format_complex_template) (rule brace_free_example)+
  have h4: "refusing (model (init 0)) ?p = (Inl (Exception (ascii ''connection refused'')), 1)"
    by (simp add: refusing_def init_def)
  from translate_text_failure [where format = raising and invoke = echo and self = "init 0"
      and source_language = english and target_language = traditional_chinese
      and domain = general and tone_style = professional
      and msg = "ascii ''bad template''", OF h1] h2
  have a: "translate_text raising echo (init 0) hello_world english traditional_chinese general
     professional =
   (Inr \<lparr>res_translation = msg_error_prefix @ ascii ''bad template'', res_prompt = [],
         res_status = ascii ''error''\<rparr>, init 0)"
    by blast
  from translate_text_failure [where format = "chat_prompt_format no_other"
      and invoke = refusing and self = "init 0"
      and source_language = english and target_language = traditional_chinese
      and domain = general and tone_style = professional
      and msg = "ascii ''connection refused''" and formatted_prompt = ?p and m = 1, OF h1]
    h3 h4
  have b: "translate_text (chat_prompt_format no_other) refusing (init 0) hello_world english
     traditional_chinese general professional =
   (Inr \<lparr>res_translation = msg_error_prefix @ ascii ''connection refused'', res_prompt = [],
         res_status = ascii ''error''\<rparr>, (init 0)\<lparr>model := 1\<rparr>)"
    by blast
  from h1 h2 h3 h4 a b show ?thesis by blast
qed

text \<open>
  The handler names the class \<^verbatim>\<open>Exception\<close>. What the collaborator raises outside that
  class (an interrupt from the keyboard, an exit of the interpreter) is no failure of the
  request and is not turned into a result: it goes on to the caller, with the history as
  it was.
\<close>

lemma translate_text_propagates:
  assumes "strip source_text \<noteq> []"
    and "format (complex_template source_language target_language domain tone_style)
           source_text = Inr formatted_prompt"
    and "invoke (model self) formatted_prompt = (Inl (BaseException msg), m)"
  shows "translate_text format invoke self source_text source_language target_language
           domain tone_style = (Inl (BaseException msg), self\<lparr>model := m\<rparr>)"
  using assms by (simp add: translate_text_def)

lemma interrupted_run:
  "translate_text (chat_prompt_format other) interrupted (init n) hello_world english
     traditional_chinese general professional =
   (Inl (BaseException (ascii ''KeyboardInterrupt'')), (init n)\<lparr>model := Suc n\<rparr>)"
proof -
  have "chat_prompt_format other
     (complex_template english traditional_chinese general professional) hello_world =
     Inr hello_world_prompt"
    unfolding hello_world_prompt_def
    by (rule chat_prompt_format_complex_template) (rule brace_free_example)+
  moreover have "model (init n) = n" by (simp add: init_def)
  ultimately show ?thesis
    using strip_hello_world by (simp add: translate_text_def interrupted_def)
qed

section \<open>Prompt and status of a result\<close>

lemma chat_prompt_format_nonempty:
  "chat_prompt_format other template text = Inr p \<Longrightarrow> p \<noteq> []"
  by (cases "fstring_format other template text")
    (auto simp: chat_prompt_format_def ascii_def)

lemma success_neq_error: "ascii ''success'' \<noteq> ascii ''error''"
  by (simp add: ascii_def)

text \<open>
  C10. Whatever \<open>translate_text\<close> returns, with the library's rendering of the prompt:
  the prompt of the result is empty exactly when its status is \<open>error\<close>, and not empty
  exactly when its status is \<open>success\<close>.
\<close>

theorem prompt_empty_iff_error:
  assumes "fst (translate_text (chat_prompt_format other) invoke self source_text
             source_language target_language domain tone_style) = Inr result"
  shows "(res_prompt result = [] \<longleftrightarrow> res_status result = ascii ''error'') \<and>
         (res_prompt result \<noteq> [] \<longleftrightarrow> res_status result = ascii ''success'')"
proof (cases "strip source_text = []")
  case True
  with assms show ?thesis
    using success_neq_error by (auto simp: translate_text_def)
next
  case nonempty: False
  show ?thesis
  proof (cases "chat_prompt_format other
      (complex_template source_language target_language domain tone_style) source_text")
    case (Inl e)
    with assms nonempty show ?thesis
      using success_neq_error by (cases e) (auto simp: translate_text_def)
  next
    case (Inr p)
    then have p: "p \<noteq> []" by (rule chat_prompt_format_nonempty)
    obtain out m where inv: "invoke (model self) p = (out, m)" by (cases "invoke (model self) p")
    show ?thesis
    proof (cases out)
      case (Inl e)
      with assms nonempty Inr inv show ?thesis
        using success_neq_error by (cases e) (auto simp: translate_text_def)
    next
      case (Inr response)
      with assms nonempty \<open>chat_prompt_format other _ _ = Inr p\<close> inv p show ?thesis
        using success_neq_error by (auto simp: translate_text_def Let_def)
    qed
  qed
qed

theorem prompt_empty_iff_error_witness:
  "fst (translate_text (chat_prompt_format no_other) echo (init 0) hello_world english
          traditional_chinese general professional) =
   Inr \<lparr>res_translation = hello_world_prompt, res_prompt = hello_world_prompt,
        res_status = ascii ''success''\<rparr> \<and>
   hello_world_prompt \<noteq> [] \<and>
   fst (translate_text (chat_prompt_format no_other) echo (init 0) [] english
          traditional_chinese general professional) =
   Inr \<lparr>res_translation = msg_empty_input, res_prompt = [], res_status = ascii ''error''\<rparr> \<and>
   ascii ''error'' \<noteq> ascii ''success''"
proof -
  have a: "fst (translate_text (chat_prompt_format no_other) echo (init 0) hello_world english
          traditional_chinese general professional) =
     Inr \<lparr>res_translation = hello_world_prompt, res_prompt = hello_world_prompt,
        res_status = ascii ''success''\<rparr>"
    by (simp add: hello_world_run)
  have b: "fst (translate_text (chat_prompt_format no_other) echo (init 0) [] english
          traditional_chinese general professional) =
     Inr \<lparr>res_translation = msg_empty_input, res_prompt = [], res_status = ascii ''error''\<rparr>"
    by (simp add: translate_text_def strip_def)
  from prompt_empty_iff_error [OF a] have "hello_world_prompt \<noteq> []" by auto
  moreover from prompt_empty_iff_error [OF b] have "ascii ''error'' \<noteq> ascii ''success''"
    by auto
  ultimately show ?thesis using a b by simp
qed

section \<open>The history across calls\<close>

lemma snd_except_Exception: "snd (except_Exception e self) = self"
  by (cases e) simp_all

lemma translate_text_history:
  "translation_history (snd (translate_text format invoke self source_text source_language
       target_language domain tone_style)) = translation_history self \<or>
   (\<exists>r. translation_history (snd (translate_text format invoke self source_text source_language
       target_language domain tone_style)) = translation_history self @ [r])"
  by (auto simp: translate_text_def Let_def snd_except_Exception split: sum.splits prod.splits)

lemma step_history:
  "(case op of
      Submit a b c d e \<Rightarrow>
        translation_history (step format invoke self op) = translation_history self \<or>
        (\<exists>r. translation_history (step format invoke self op) = translation_history self @ [r])
    | GetHistory \<Rightarrow> translation_history (step format invoke self op) = translation_history self
    | ClearHistory \<Rightarrow> translation_history (step format invoke self op) = [])"
proof (cases op)
  case (Submit a b c d e)
  then show ?thesis using translate_text_history [of format invoke self a b c d e] by simp
next
  case GetHistory
  then show ?thesis by (simp add: get_translation_history_def)
next
  case ClearHistory
  then show ?thesis by (simp add: clear_history_def)
qed

lemma step_prefix:
  "op \<noteq> ClearHistory \<Longrightarrow>
   prefix (translation_history self) (translation_history (step format invoke self op))"
  using step_history [where op = op and format = format and invoke = invoke and self = self]
  by (cases op) auto

lemma run_Cons: "run format invoke self (op # ops) = run format invoke (step format invoke self op) ops"
  by (simp add: run_def)

lemma run_prefix:
  "ClearHistory \<notin> set ops \<Longrightarrow>
   prefix (translation_history self) (translation_history (run format invoke self ops))"
proof (induction ops arbitrary: self)
  case Nil
  then show ?case by (simp add: run_def)
next
  case (Cons op ops)
  then have "prefix (translation_history self) (translation_history (step format invoke self op))"
    by (auto intro: step_prefix)
  moreover have "prefix (translation_history (step format invoke self op))
      (translation_history (run format invoke (step format invoke self op) ops))"
    using Cons by simp
  ultimately show ?case unfolding run_Cons by (rule prefix_order.trans)
qed

text \<open>
  C9. After any sequence \<open>ops\<close> of submissions, history views and clears, from any agent,
  one more operation leaves the history as it was, or puts exactly one record behind it,
  or empties it. An operation other than the clear keeps the history it found as a prefix
  of the new one, and so does a whole sequence without a clear: the entries that were
  there stay where they were, in their order and with their fields.
\<close>

theorem history_append_only:
  "(translation_history (step format invoke (run format invoke self ops) op) =
      translation_history (run format invoke self ops) \<or>
    (\<exists>r. translation_history (step format invoke (run format invoke self ops) op) =
      translation_history (run format invoke self ops) @ [r]) \<or>
    translation_history (step format invoke (run format invoke self ops) op) = []) \<and>
   (op \<noteq> ClearHistory \<longrightarrow>
    prefix (translation_history (run format invoke self ops))
      (translation_history (step format invoke (run format invoke self ops) op))) \<and>
   (ClearHistory \<notin> set ops \<longrightarrow>
    prefix (translation_history self) (translation_history (run format invoke self ops)))"
proof -
  have "translation_history (step format invoke (run format invoke self ops) op) =
      translation_history (run format invoke self ops) \<or>
    (\<exists>r. translation_history (step format invoke (run format invoke self ops) op) =
      translation_history (run format invoke self ops) @ [r]) \<or>
    translation_history (step format invoke (run format invoke self ops) op) = []"
    using step_history [where op = op and format = format and invoke = invoke
        and self = "run format invoke self ops"]
    by (cases op) auto
  then show ?thesis using step_prefix run_prefix by blast
qed

theorem history_append_only_witness:
  "Submit hello_world english traditional_chinese general professional \<noteq> ClearHistory \<and>
   ClearHistory \<notin> set [Submit hello_world english traditional_chinese general professional,
                        GetHistory] \<and>
   translation_history (init (0::nat)) = [] \<and>
   length (translation_history
     (run (chat_prompt_format no_other) echo (init 0)
        [Submit hello_world english traditional_chinese general professional, GetHistory])) = 1 \<and>
   prefix
     (translation_history
       (run (chat_prompt_format no_other) echo (init 0)
          [Submit hello_world english traditional_chinese general professional, GetHistory]))
     (translation_history
       (step (chat_prompt_format no_other) echo
          (run (chat_prompt_format no_other) echo (init 0)
             [Submit hello_world english traditional_chinese general professional, GetHistory])
          (Submit hello_world english traditional_chinese general professional))) \<and>
   translation_history
     (step (chat_prompt_format no_other) echo
        (run (chat_prompt_format no_other) echo (init 0)
           [Submit hello_world english traditional_chinese general professional, GetHistory])
        ClearHistory) = []"
proof -
  let ?ops = "[Submit hello_world english traditional_chinese general professional, GetHistory]"
  let ?s = "run (chat_prompt_format no_other) echo (init 0) ?ops"
  have len: "length (translation_history ?s) = 1"
    by (simp add: run_def hello_world_run get_translation_history_def)
  have clr: "translation_history (step (chat_prompt_format no_other) echo ?s ClearHistory) = []"
    by (simp add: clear_history_def)
  have emp: "translation_history (init (0::nat)) = []" by (simp add: init_def)
  from history_append_only [where format = "chat_prompt_format no_other" and invoke = echo
      and self = "init 0" and ops = ?ops
      and op = "Submit hello_world english traditional_chinese general professional"]
    len clr emp
  show ?thesis by simp
qed

section \<open>Clearing the history\<close>

text \<open>
  C5. From any agent, \<open>clear_history\<close> returns the confirmation and an agent whose
  history is empty and whose other attributes are as before. Clearing again gives the
  same message and the same agent; on an agent whose history is already empty the agent
  is unchanged. A history view taken after the clear is the message for an empty history.
\<close>

theorem clear_history_resets:
  "clear_history self = (msg_cleared, self\<lparr>translation_history := []\<rparr>) \<and>
   translation_history (snd (clear_history self)) = [] \<and>
   clear_history (snd (clear_history self)) = clear_history self \<and>
   (translation_history self = [] \<longrightarrow> clear_history self = (msg_cleared, self)) \<and>
   fst (get_translation_history (snd (clear_history self))) = msg_no_records"
  by (simp add: clear_history_def get_translation_history_def)

theorem clear_history_resets_witness:
  "translation_history (init (0::nat)) = [] \<and>
   clear_history (init (0::nat)) = (msg_cleared, init 0) \<and>
   translation_history ((init (0::nat))\<lparr>translation_history := [sample_record 0, sample_record 1]\<rparr>)
     \<noteq> [] \<and>
   translation_history
     (snd (clear_history
        ((init (0::nat))\<lparr>translation_history := [sample_record 0, sample_record 1]\<rparr>))) = [] \<and>
   fst (get_translation_history
     (snd (clear_history
        ((init (0::nat))\<lparr>translation_history := [sample_record 0, sample_record 1]\<rparr>)))) =
   msg_no_records"
proof -
  have emp: "translation_history (init (0::nat)) = []" by (simp add: init_def)
  from clear_history_resets [of "init (0::nat)"] emp
  have a: "clear_history (init (0::nat)) = (msg_cleared, init 0)" by blast
  let ?s = "(init (0::nat))\<lparr>translation_history := [sample_record 0, sample_record 1]\<rparr>"
  have ne: "translation_history ?s \<noteq> []" by simp
  from clear_history_resets [of ?s]
  have b: "translation_history (snd (clear_history ?s)) = []"
    and c: "fst (get_translation_history (snd (clear_history ?s))) = msg_no_records"
    by blast+
  from emp a ne b c show ?thesis by blast
qed

section \<open>The history view\<close>

text \<open>
  The lines the loop adds for a record are the entry the specification describes, and the
  loop puts the entries behind the text it starts with, numbered from its first number.
\<close>

lemma history_lines_view_entry: "history_lines i r = view_entry i r"
  by (simp add: history_lines_def view_entry_def truncated_def)

lemma history_loop_view:
  "history_loop history_text i rs =
   history_text @ concat (map2 view_entry [i ..< i + length rs] rs)"
proof (induction rs arbitrary: history_text i)
  case Nil
  then show ?case by simp
next
  case (Cons r rs)
  have "[i ..< i + length (r # rs)] = i # [Suc i ..< Suc i + length rs]"
    by (subst upt_rec) simp
  then show ?case by (simp add: Cons.IH history_lines_view_entry del: upt_Suc)
qed

text \<open>
  C4. \<open>get_translation_history\<close> returns the agent as it was. Its text is the message
  for an empty history when the history is empty. Otherwise it is the header and, behind
  it, one entry for each of the last ten records (all of them when there are fewer), in
  the order in which they were added and numbered from 1; an entry shows the source text
  cut to 100 and the output text cut to 150 characters, with the ellipsis exactly when
  the text is longer (\<open>view_entry\<close>, \<open>truncated\<close>). The records shown are a suffix of the
  history, and there are as many as the smaller of the history's length and 10.
\<close>

theorem get_translation_history_view:
  "get_translation_history self =
     ((if translation_history self = [] then msg_no_records
       else history_header @
            concat (map2 view_entry
                      [1 ..< Suc (length (last_ten (translation_history self)))]
                      (last_ten (translation_history self)))), self) \<and>
   suffix (last_ten (translation_history self)) (translation_history self) \<and>
   length (last_ten (translation_history self)) = min (length (translation_history self)) 10"
  by (auto simp: get_translation_history_def history_loop_view last_ten_def suffix_drop)

lemma last_ten_sample: "last_ten (map sample_record [0..<12]) = map sample_record [2..<12]"
proof -
  have a: "length (map sample_record [0..<12]) - 10 = 2" by simp
  have b: "drop 2 [0..<12::nat] = [2..<12]" using drop_upt [of 2 0 12] by (simp only: add_0)
  show ?thesis unfolding last_ten_def a drop_map b ..
qed

theorem get_translation_history_view_witness:
  "get_translation_history (init (0::nat)) = (msg_no_records, init 0) \<and>
   get_translation_history ((init (0::nat))\<lparr>translation_history := map sample_record [0..<12]\<rparr>) =
   (history_header @ concat (map2 view_entry [1..<11] (map sample_record [2..<12])),
    (init (0::nat))\<lparr>translation_history := map sample_record [0..<12]\<rparr>) \<and>
   truncated 100 (rec_source_text (sample_record 2)) = replicate 92 0x61 \<and>
   truncated 100 (rec_source_text (sample_record 11)) = replicate 100 0x61 @ ascii ''...'' \<and>
   truncated 150 (rec_translation (sample_record 11)) = replicate 150 0x62 @ ascii ''...''"
proof -
  have emp: "translation_history (init (0::nat)) = []" by (simp add: init_def)
  from get_translation_history_view [of "init (0::nat)"] emp
  have a: "get_translation_history (init (0::nat)) = (msg_no_records, init 0)" by simp
  let ?s = "(init (0::nat))\<lparr>translation_history := map sample_record [0..<12]\<rparr>"
  have hs: "translation_history ?s = map sample_record [0..<12]" by simp
  have ne: "map sample_record [0..<12] \<noteq> []" by simp
  have l: "Suc (length (map sample_record [2..<12])) = 11" by simp
  from get_translation_history_view [of ?s]
  have "get_translation_history ?s =
     ((if translation_history ?s = [] then msg_no_records
       else history_header @
            concat (map2 view_entry
                      [1 ..< Suc (length (last_ten (translation_history ?s)))]
                      (last_ten (translation_history ?s)))), ?s)"
    by blast
  then have b: "get_translation_history ?s =
   (history_header @ concat (map2 view_entry [1..<11] (map sample_record [2..<12])), ?s)"
    unfolding hs last_ten_sample l using ne by (simp only: if_False)
  have c: "truncated 100 (rec_source_text (sample_record 2)) = replicate 92 0x61"
    "truncated 100 (rec_source_text (sample_record 11)) = replicate 100 0x61 @ ascii ''...''"
    "truncated 150 (rec_translation (sample_record 11)) = replicate 150 0x62 @ ascii ''...''"
    by (simp_all add: truncated_def sample_record_def)
  from a b c show ?thesis by simp
qed

section \<open>The rendered instruction\<close>

text \<open>
  A submission to the echoing collaborator from a fresh agent, with text that is not
  empty after trimming and labels that hold no brace.
\<close>

lemma echo_run:
  assumes "strip source_text \<noteq> []" "brace_free source_language" "brace_free target_language"
    "brace_free domain" "brace_free tone_style"
  shows "translate_text (chat_prompt_format other) echo (init n) source_text source_language
     target_language domain tone_style =
   (Inr \<lparr>res_translation = ascii ''Human: '' @
           rendered_instruction source_language target_language domain tone_style source_text,
         res_prompt = ascii ''Human: '' @
           rendered_instruction source_language target_language domain tone_style source_text,
         res_status = ascii ''success''\<rparr>,
    (init n)\<lparr>model := Suc n,
             translation_history :=
               [\<lparr>rec_source_text = source_text,
                 rec_source_language = source_language,
                 rec_target_language = target_language,
                 rec_domain = domain,
                 rec_tone_style = tone_style,
                 rec_translation = ascii ''Human: '' @
                   rendered_instruction source_language target_language domain tone_style
                     source_text,
                 rec_prompt = ascii ''Human: '' @
                   rendered_instruction source_language target_language domain tone_style
                     source_text\<rparr>]\<rparr>)"
proof -
  have "translation_history (init n) = []" "model (init n) = n"
    by (simp_all add: init_def)
  then show ?thesis
    using assms
    by (simp add: translate_text_def echo_def chat_prompt_format_complex_template Let_def)
qed

text \<open>
  The instruction of the example, code point by code point: \<^verbatim>\<open>Human: \<close>, a newline, and
  the five-point template with the labels and \<^verbatim>\<open>Hello world\<close> in their places.
\<close>

lemma hello_world_prompt_value:
  "hello_world_prompt =
    [0x48, 0x75, 0x6D, 0x61, 0x6E, 0x3A, 0x20, 0x0A, 0x4F60, 0x662F, 0x4E00, 0x4F4D,
     0x5C08, 0x696D, 0x7684, 0x7E41, 0x9AD4, 0x4E2D, 0x6587, 0x7FFB, 0x8B6F, 0x5BB6,
     0xFF0C, 0x5C08, 0x7CBE, 0x65BC, 0x4E00, 0x822C, 0x9818, 0x57DF, 0xFF0C, 0x64C5,
     0x9577, 0x5C08, 0x696D, 0x98A8, 0x683C, 0x7684, 0x7FFB, 0x8B6F, 0x3002, 0x0A, 0x8ACB,
     0x5C07, 0x4EE5, 0x4E0B, 0x45, 0x6E, 0x67, 0x6C, 0x69, 0x73, 0x68, 0x6587, 0x672C,
     0x7FFB, 0x8B6F, 0x6210, 0x7E41, 0x9AD4, 0x4E2D, 0x6587, 0xFF0C, 0x4E26, 0x78BA,
     0x4FDD, 0xFF1A, 0x0A, 0x31, 0x2E, 0x20, 0x4FDD, 0x6301, 0x539F, 0x6587, 0x7684,
     0x8A9E, 0x6C23, 0x548C, 0x98A8, 0x683C, 0xFF08, 0x5C08, 0x696D, 0xFF09, 0x0A, 0x32,
     0x2E, 0x20, 0x4F7F, 0x7528, 0x4E00, 0x822C, 0x9818, 0x57DF, 0x7684, 0x5C08, 0x696D,
     0x8853, 0x8A9E, 0x0A, 0x33, 0x2E, 0x20, 0x7B26, 0x5408, 0x7E41, 0x9AD4, 0x4E2D,
     0x6587, 0x7684, 0x8A9E, 0x8A00, 0x7FD2, 0x6163, 0x0A, 0x34, 0x2E, 0x20, 0x4FDD,
     0x6301, 0x539F, 0x6587, 0x7684, 0x8A9E, 0x7FA9, 0x5B8C, 0x6574, 0x6027, 0x0A, 0x35,
     0x2E, 0x20, 0x63D0, 0x4F9B, 0x81EA, 0x7136, 0x6D41, 0x66A2, 0x7684, 0x7FFB, 0x8B6F,
     0x7D50, 0x679C, 0x0A, 0x0A, 0x45, 0x6E, 0x67, 0x6C, 0x69, 0x73, 0x68, 0x6587, 0x672C,
     0xFF1A, 0x48, 0x65, 0x6C, 0x6C, 0x6F, 0x20, 0x77, 0x6F, 0x72, 0x6C, 0x64, 0x0A,
     0x7E41, 0x9AD4, 0x4E2D, 0x6587, 0x7FFB, 0x8B6F, 0xFF1A, 0x0A]"
  by (simp add: hello_world_prompt_def rendered_instruction_def ascii_def english_def
      traditional_chinese_def general_def professional_def hello_world_def
      tpl_head_def tpl_1_def tpl_2_def tpl_3_def tpl_4_def tpl_5_def tpl_6_def tpl_7_def
      tpl_8_def tpl_9_def tpl_10_def)

lemma sublist_skip: "sublist xs zs \<Longrightarrow> sublist xs (ys @ zs)"
  by (auto simp: sublist_append)

lemma rendered_instruction_sublist:
  "sublist source_language
     (rendered_instruction source_language target_language domain tone_style body)"
  "sublist target_language
     (rendered_instruction source_language target_language domain tone_style body)"
  "sublist domain (rendered_instruction source_language target_language domain tone_style body)"
  "sublist tone_style
     (rendered_instruction source_language target_language domain tone_style body)"
  "sublist body (rendered_instruction source_language target_language domain tone_style body)"
  unfolding rendered_instruction_def
  by (intro sublist_skip sublist_append_rightI | rule sublist_append_rightI)+

text \<open>
  C6. The call with the text \<^verbatim>\<open>Hello world\<close>, the source language \<^verbatim>\<open>English\<close>, the
  target language \<open>traditional_chinese\<close>, the domain \<open>general\<close> and the tone
  \<open>professional\<close>, to a fresh agent whose collaborator echoes its input, leaves a history
  of exactly one record. The rendered instruction of that record is
  \<open>hello_world_prompt\<close> (spelled out in \<open>hello_world_prompt_value\<close>), and each of the
  five strings is a contiguous part of it.
\<close>

theorem hello_world_example:
  "translation_history
     (snd (translate_text (chat_prompt_format other) echo (init n) hello_world english
             traditional_chinese general professional)) =
   [\<lparr>rec_source_text = hello_world,
     rec_source_language = english,
     rec_target_language = traditional_chinese,
     rec_domain = general,
     rec_tone_style = professional,
     rec_translation = hello_world_prompt,
     rec_prompt = hello_world_prompt\<rparr>] \<and>
   sublist english hello_world_prompt \<and>
   sublist traditional_chinese hello_world_prompt \<and>
   sublist general hello_world_prompt \<and>
   sublist professional hello_world_prompt \<and>
   sublist hello_world hello_world_prompt"
proof -
  have "sublist english hello_world_prompt" "sublist traditional_chinese hello_world_prompt"
    "sublist general hello_world_prompt" "sublist professional hello_world_prompt"
    "sublist hello_world hello_world_prompt"
    unfolding hello_world_prompt_def
    by (rule sublist_skip, rule rendered_instruction_sublist)+
  then show ?thesis by (simp add: hello_world_run)
qed

theorem hello_world_example_witness:
  "map rec_prompt
     (translation_history
        (snd (translate_text (chat_prompt_format no_other) echo (init 0) hello_world english
                traditional_chinese general professional))) = [hello_world_prompt] \<and>
   sublist english hello_world_prompt \<and>
   sublist hello_world hello_world_prompt"
  using hello_world_example [of no_other 0] by simp

subsection \<open>The text in the slot\<close>

lemma strip_padded_hello_world: "strip padded_hello_world = hello_world"
  by (simp add: strip_def padded_hello_world_def hello_world_def ascii_def py_isspace_def)

lemma padded_neq: "padded_hello_world \<noteq> hello_world"
  by (simp add: padded_hello_world_def hello_world_def ascii_def)

text \<open>
  The text in the slot is not the trimmed text. For \<^verbatim>\<open>Hello world\<close> between two spaces,
  which trimmed is \<^verbatim>\<open>Hello world\<close> and so not empty, the instruction the call returns
  holds the text with its two spaces, and differs from the instruction that would hold
  the trimmed text.
\<close>

theorem trimmed_text_counterexample:
  "strip padded_hello_world = hello_world \<and>
   strip padded_hello_world \<noteq> [] \<and>
   fst (translate_text (chat_prompt_format no_other) echo (init 0) padded_hello_world english
          traditional_chinese general professional) =
   Inr \<lparr>res_translation = ascii ''Human: '' @
          rendered_instruction english traditional_chinese general professional
            padded_hello_world,
        res_prompt = ascii ''Human: '' @
          rendered_instruction english traditional_chinese general professional
            padded_hello_world,
        res_status = ascii ''success''\<rparr> \<and>
   ascii ''Human: '' @
     rendered_instruction english traditional_chinese general professional padded_hello_world \<noteq>
   ascii ''Human: '' @
     rendered_instruction english traditional_chinese general professional
       (strip padded_hello_world)"
proof -
  have ne: "strip padded_hello_world \<noteq> []"
    by (simp add: strip_padded_hello_world hello_world_def ascii_def)
  have run: "fst (translate_text (chat_prompt_format no_other) echo (init 0) padded_hello_world
      english traditional_chinese general professional) =
   Inr \<lparr>res_translation = ascii ''Human: '' @
          rendered_instruction english traditional_chinese general professional
            padded_hello_world,
        res_prompt = ascii ''Human: '' @
          rendered_instruction english traditional_chinese general professional
            padded_hello_world,
        res_status = ascii ''success''\<rparr>"
    by (simp add: echo_run [OF ne brace_free_example])
  have diff: "ascii ''Human: '' @
     rendered_instruction english traditional_chinese general professional padded_hello_world \<noteq>
   ascii ''Human: '' @
     rendered_instruction english traditional_chinese general professional
       (strip padded_hello_world)"
    using padded_neq by (simp add: rendered_instruction_def strip_padded_hello_world)
  from strip_padded_hello_world ne run diff show ?thesis by blast
qed

text \<open>
  C7, as the code has it. For a text that is not empty after trimming and selectors that
  hold no brace (as every label of the catalogs), rendering returns the role prefix
  \<^verbatim>\<open>Human: \<close> and the fixed five-point template with the four selectors substituted and
  the source text, exactly as it was passed, in the slot of \<^verbatim>\<open>{text}\<close>; trimming serves
  the emptiness test only. This instruction is what the collaborator is invoked on, and
  what a successful call returns as prompt and records.
\<close>

theorem translate_text_renders_template:
  assumes "strip source_text \<noteq> []"
    and "brace_free source_language" and "brace_free target_language"
    and "brace_free domain" and "brace_free tone_style"
  shows "chat_prompt_format other
           (complex_template source_language target_language domain tone_style) source_text =
         Inr (ascii ''Human: '' @
              rendered_instruction source_language target_language domain tone_style
                source_text) \<and>
         translate_text (chat_prompt_format other) invoke self source_text source_language
           target_language domain tone_style =
         (case invoke (model self)
                 (ascii ''Human: '' @
                  rendered_instruction source_language target_language domain tone_style
                    source_text) of
            (Inl e, m) \<Rightarrow> except_Exception e (self\<lparr>model := m\<rparr>)
          | (Inr response, m) \<Rightarrow>
              (Inr \<lparr>res_translation = coerce_text response,
                    res_prompt = ascii ''Human: '' @
                      rendered_instruction source_language target_language domain tone_style
                        source_text,
                    res_status = ascii ''success''\<rparr>,
               self\<lparr>model := m,
                    translation_history := translation_history self @
                      [\<lparr>rec_source_text = source_text,
                        rec_source_language = source_language,
                        rec_target_language = target_language,
                        rec_domain = domain,
                        rec_tone_style = tone_style,
                        rec_translation = coerce_text response,
                        rec_prompt = ascii ''Human: '' @
                          rendered_instruction source_language target_language domain
                            tone_style source_text\<rparr>]\<rparr>))"
  using assms
  by (simp add: translate_text_def chat_prompt_format_complex_template Let_def
      split: sum.splits prod.splits)

theorem translate_text_renders_template_witness:
  "strip padded_hello_world \<noteq> [] \<and>
   brace_free english \<and> brace_free traditional_chinese \<and> brace_free general \<and>
   brace_free professional \<and>
   chat_prompt_format no_other
     (complex_template english traditional_chinese general professional) padded_hello_world =
   Inr (ascii ''Human: '' @
        rendered_instruction english traditional_chinese general professional
          padded_hello_world) \<and>
   fst (translate_text (chat_prompt_format no_other) refusing (init 0) padded_hello_world
          english traditional_chinese general professional) =
   Inr \<lparr>res_translation = msg_error_prefix @ ascii ''connection refused'', res_prompt = [],
        res_status = ascii ''error''\<rparr>"
proof -
  have ne: "strip padded_hello_world \<noteq> []"
    by (simp add: strip_padded_hello_world hello_world_def ascii_def)
  from translate_text_renders_template [OF ne brace_free_example, where other = no_other
      and invoke = refusing and self = "init 0"]
  have "chat_prompt_format no_other
     (complex_template english traditional_chinese general professional) padded_hello_world =
   Inr (ascii ''Human: '' @
        rendered_instruction english traditional_chinese general professional
          padded_hello_world)"
    and "fst (translate_text (chat_prompt_format no_other) refusing (init 0) padded_hello_world
          english traditional_chinese general professional) =
   Inr \<lparr>res_translation = msg_error_prefix @ ascii ''connection refused'', res_prompt = [],
        res_status = ascii ''error''\<rparr>"
    by (simp_all add: refusing_def)
  with ne brace_free_example show ?thesis by blast
qed

subsection \<open>The catalogs\<close>

lemma except_Exception_unfold:
  "except_Exception e self =
   ((case e of
       Exception msg \<Rightarrow>
         Inr \<lparr>res_translation = msg_error_prefix @ msg, res_prompt = [],
               res_status = ascii ''error''\<rparr>
     | BaseException msg \<Rightarrow> Inl (BaseException msg)), self)"
  by (cases e) simp_all

lemma translate_text_catalogs:
  "translate_text format invoke (self\<lparr>languages := L, domains := D, tone_styles := T\<rparr>)
     source_text source_language target_language domain tone_style =
   (fst (translate_text format invoke self source_text source_language target_language
           domain tone_style),
    (snd (translate_text format invoke self source_text source_language target_language
            domain tone_style))\<lparr>languages := L, domains := D, tone_styles := T\<rparr>)"
  by (simp add: translate_text_def except_Exception_unfold Let_def
      split: sum.splits prod.splits)

lemma except_Exception_keeps:
  "languages (snd (except_Exception e self)) = languages self"
  "domains (snd (except_Exception e self)) = domains self"
  "tone_styles (snd (except_Exception e self)) = tone_styles self"
  by (simp_all add: except_Exception_unfold)

lemma step_catalogs:
  "languages (step format invoke self op) = languages self"
  "domains (step format invoke self op) = domains self"
  "tone_styles (step format invoke self op) = tone_styles self"
  by (cases op;
      simp add: translate_text_def get_translation_history_def clear_history_def Let_def
        except_Exception_unfold split: sum.splits prod.splits)+

lemma success_prompt:
  assumes "brace_free source_language" "brace_free target_language" "brace_free domain"
    "brace_free tone_style"
    and "fst (translate_text (chat_prompt_format other) invoke self source_text
                source_language target_language domain tone_style) = Inr result"
    and "res_status result = ascii ''success''"
  shows "res_prompt result =
         ascii ''Human: '' @
         rendered_instruction source_language target_language domain tone_style source_text"
proof (cases "strip source_text = []")
  case True
  with assms(5,6) show ?thesis using success_neq_error by (auto simp: translate_text_def)
next
  case False
  let ?p = "ascii ''Human: '' @
    rendered_instruction source_language target_language domain tone_style source_text"
  obtain out m where inv: "invoke (model self) ?p = (out, m)"
    by (cases "invoke (model self) ?p")
  show ?thesis
  proof (cases out)
    case (Inl e)
    with False assms inv show ?thesis
      using success_neq_error
      by (cases e) (auto simp: translate_text_def chat_prompt_format_complex_template)
  next
    case (Inr response)
    with False assms inv show ?thesis
      by (auto simp: translate_text_def chat_prompt_format_complex_template Let_def)
  qed
qed

lemma no_english_in_chinese: "\<not> sublist english_in_chinese hello_world_prompt"
  unfolding hello_world_prompt_value english_in_chinese_def
  by (simp add: sublist_code)

text \<open>
  The label in the instruction is not the label the catalog maps to. The dictionary
  \<open>languages\<close> maps \<^verbatim>\<open>English\<close> to \<open>english_in_chinese\<close>, a different string; the
  instruction of the example holds \<^verbatim>\<open>English\<close>, does not hold \<open>english_in_chinese\<close>
  anywhere, and is not the template filled with it.
\<close>

theorem catalog_label_counterexample:
  "catalog_label (languages (init (0::nat))) english = Some english_in_chinese \<and>
   english_in_chinese \<noteq> english \<and>
   fst (translate_text (chat_prompt_format no_other) echo (init 0) hello_world english
          traditional_chinese general professional) =
   Inr \<lparr>res_translation = hello_world_prompt, res_prompt = hello_world_prompt,
        res_status = ascii ''success''\<rparr> \<and>
   hello_world_prompt \<noteq>
   ascii ''Human: '' @
   rendered_instruction english_in_chinese traditional_chinese general professional
     hello_world \<and>
   sublist english hello_world_prompt \<and>
   \<not> sublist english_in_chinese hello_world_prompt"
proof -
  have a: "catalog_label (languages (init (0::nat))) english = Some english_in_chinese"
    by (simp add: catalog_label_def init_def english_def english_in_chinese_def ascii_def)
  have b: "english_in_chinese \<noteq> english"
    by (simp add: english_def english_in_chinese_def ascii_def)
  have c: "fst (translate_text (chat_prompt_format no_other) echo (init 0) hello_world english
          traditional_chinese general professional) =
   Inr \<lparr>res_translation = hello_world_prompt, res_prompt = hello_world_prompt,
        res_status = ascii ''success''\<rparr>"
    by (simp add: hello_world_run)
  have d: "hello_world_prompt \<noteq>
   ascii ''Human: '' @
   rendered_instruction english_in_chinese traditional_chinese general professional
     hello_world"
    by (simp add: hello_world_prompt_def rendered_instruction_def english_def
        english_in_chinese_def ascii_def)
  have e: "sublist english hello_world_prompt"
    unfolding hello_world_prompt_def
    by (rule sublist_skip, rule rendered_instruction_sublist)
  from a b c d e no_english_in_chinese show ?thesis by blast
qed

text \<open>
  C8, as the code has it. The three catalogs are attributes that no operation changes and
  that \<open>translate_text\<close> does not read: with any other catalogs \<open>L\<close>, \<open>D\<close>, \<open>T\<close> in their
  place the call gives the same result and the same agent (but for the catalogs
  themselves). The label that stands in the instruction for a selector is the selector
  the caller passed, the display label itself: for selectors that hold no brace, the
  prompt of a successful call is the role prefix and the template filled with the four
  selectors as passed and the source text.
\<close>

theorem catalogs_not_consulted:
  "translate_text format invoke (self\<lparr>languages := L, domains := D, tone_styles := T\<rparr>)
     source_text source_language target_language domain tone_style =
   (fst (translate_text format invoke self source_text source_language target_language
           domain tone_style),
    (snd (translate_text format invoke self source_text source_language target_language
            domain tone_style))\<lparr>languages := L, domains := D, tone_styles := T\<rparr>) \<and>
   languages (step format invoke self op) = languages self \<and>
   domains (step format invoke self op) = domains self \<and>
   tone_styles (step format invoke self op) = tone_styles self \<and>
   (brace_free source_language \<and> brace_free target_language \<and> brace_free domain \<and>
    brace_free tone_style \<and>
    fst (translate_text (chat_prompt_format other) invoke self source_text source_language
           target_language domain tone_style) = Inr result \<and>
    res_status result = ascii ''success'' \<longrightarrow>
    res_prompt result =
    ascii ''Human: '' @
    rendered_instruction source_language target_language domain tone_style source_text)"
proof (intro conjI impI)
  show "translate_text format invoke (self\<lparr>languages := L, domains := D, tone_styles := T\<rparr>)
     source_text source_language target_language domain tone_style =
   (fst (translate_text format invoke self source_text source_language target_language
           domain tone_style),
    (snd (translate_text format invoke self source_text source_language target_language
            domain tone_style))\<lparr>languages := L, domains := D, tone_styles := T\<rparr>)"
    by (rule translate_text_catalogs)
  show "languages (step format invoke self op) = languages self"
    "domains (step format invoke self op) = domains self"
    "tone_styles (step format invoke self op) = tone_styles self"
    by (rule step_catalogs)+
next
  assume "brace_free source_language \<and> brace_free target_language \<and> brace_free domain \<and>
    brace_free tone_style \<and>
    fst (translate_text (chat_prompt_format other) invoke self source_text source_language
           target_language domain tone_style) = Inr result \<and>
    res_status result = ascii ''success''"
  then show "res_prompt result =
    ascii ''Human: '' @
    rendered_instruction source_language target_language domain tone_style source_text"
    by (elim conjE) (rule success_prompt)
qed

theorem catalogs_not_consulted_witness:
  "brace_free english \<and> brace_free traditional_chinese \<and> brace_free general \<and>
   brace_free professional \<and>
   fst (translate_text (chat_prompt_format no_other) echo
          ((init 0)\<lparr>languages := [], domains := [], tone_styles := []\<rparr>) hello_world english
          traditional_chinese general professional) =
   Inr \<lparr>res_translation = hello_world_prompt, res_prompt = hello_world_prompt,
        res_status = ascii ''success''\<rparr> \<and>
   hello_world_prompt =
   ascii ''Human: '' @
   rendered_instruction english traditional_chinese general professional hello_world \<and>
   languages (step (chat_prompt_format no_other) echo (init 0) ClearHistory) =
   languages (init (0::nat))"
proof -
  let ?r = "\<lparr>res_translation = hello_world_prompt, res_prompt = hello_world_prompt,
        res_status = ascii ''success''\<rparr>"
  have run: "fst (translate_text (chat_prompt_format no_other) echo (init 0) hello_world english
      traditional_chinese general professional) = Inr ?r"
    by (simp add: hello_world_run)
  have st: "res_status ?r = ascii ''success''" by simp
  note t = catalogs_not_consulted [where format = "chat_prompt_format no_other"
      and other = no_other and invoke = echo and self = "init 0" and L = "[]" and D = "[]"
      and T = "[]" and source_text = hello_world and source_language = english
      and target_language = traditional_chinese and domain = general
      and tone_style = professional and result = ?r and op = ClearHistory]
  from t have "translate_text (chat_prompt_format no_other) echo
      ((init 0)\<lparr>languages := [], domains := [], tone_styles := []\<rparr>) hello_world english
      traditional_chinese general professional =
    (fst (translate_text (chat_prompt_format no_other) echo (init 0) hello_world english
            traditional_chinese general professional),
     (snd (translate_text (chat_prompt_format no_other) echo (init 0) hello_world english
             traditional_chinese general professional))
       \<lparr>languages := [], domains := [], tone_styles := []\<rparr>)"
    by blast
  then have a: "fst (translate_text (chat_prompt_format no_other) echo
      ((init 0)\<lparr>languages := [], domains := [], tone_styles := []\<rparr>) hello_world english
      traditional_chinese general professional) = Inr ?r"
    using run by simp
  from t run st brace_free_example
  have "res_prompt ?r =
    ascii ''Human: '' @
    rendered_instruction english traditional_chinese general professional hello_world"
    by blast
  then have b: "hello_world_prompt =
    ascii ''Human: '' @
    rendered_instruction english traditional_chinese general professional hello_world"
    by simp
  from t have c: "languages (step (chat_prompt_format no_other) echo (init 0) ClearHistory) =
    languages (init (0::nat))"
    by blast
  from a b c brace_free_example show ?thesis by blast
qed

end
